theory Spec2Isabelle
  imports Main "HOL-Library.Word"
begin

section \<open>JavaScript strings\<close>

text \<open>
  A JavaScript string is a sequence of UTF-16 code units. Literals of the source that
  are plain ASCII are written \<open>js ''...''\<close>.
\<close>

type_synonym jsstring = "16 word list"

definition js :: "string \<Rightarrow> jsstring" where
  "js s = map (\<lambda>c. of_char c) s"

text \<open>
  \<open>String.prototype.trim\<close> removes the code units of ECMAScript's WhiteSpace and
  LineTerminator productions from both ends: TAB, LF, VT, FF, CR, SPACE, NBSP, the
  other space separators (U+1680, U+2000 to U+200A, U+202F, U+205F, U+3000), LS, PS
  and the byte order mark.
\<close>

definition isWhiteSpace :: "16 word \<Rightarrow> bool" where
  "isWhiteSpace c \<longleftrightarrow>
     c \<in> {0x0009, 0x000A, 0x000B, 0x000C, 0x000D, 0x0020, 0x00A0, 0x1680,
          0x2028, 0x2029, 0x202F, 0x205F, 0x3000, 0xFEFF}
     \<or> (0x2000 \<le> c \<and> c \<le> 0x200A)"

definition trim :: "jsstring \<Rightarrow> jsstring" where
  "trim s = rev (dropWhile isWhiteSpace (rev (dropWhile isWhiteSpace s)))"

text \<open>
  \<open>Number.prototype.toString(16)\<close> on a non-negative integer: lower-case digits, no
  leading zero. \<open>toUpperCase\<close> is given on the ASCII letters, which is all that the
  digits of \<open>toString(16)\<close> can contain.
\<close>

fun toString16 :: "nat \<Rightarrow> jsstring" where
  "toString16 n =
     (if n < 16 then [js ''0123456789abcdef'' ! n]
      else toString16 (n div 16) @ [js ''0123456789abcdef'' ! (n mod 16)])"

definition toUpperCase :: "jsstring \<Rightarrow> jsstring" where
  "toUpperCase s = map (\<lambda>c. if 0x61 \<le> c \<and> c \<le> 0x7A then c - 0x20 else c) s"

section \<open>config.js\<close>

datatype match_rule =
    Service jsstring         \<comment> \<open>\<open>type: 'service'\<close> with its \<open>uuid\<close>\<close>
  | Manufacturer nat         \<comment> \<open>\<open>type: 'manufacturer'\<close> with its \<open>companyId\<close>\<close>
  | OtherType jsstring       \<comment> \<open>any other \<open>type\<close> string\<close>

record profile =
  cfg_profileName :: jsstring
  cfg_type :: match_rule

record config =
  TICKER_INTERVAL_MS :: nat
  FTS_PROFILES :: "profile list"
  STRONG :: int              \<comment> \<open>\<open>RSSI_STATUS.STRONG\<close>\<close>
  WEAK :: int                \<comment> \<open>\<open>RSSI_STATUS.WEAK\<close>\<close>
  ACTIVE_MS :: int           \<comment> \<open>\<open>LED_STATUS.ACTIVE_MS\<close>\<close>
  INACTIVE_MS :: int         \<comment> \<open>\<open>LED_STATUS.INACTIVE_MS\<close>\<close>
  keepRepeatedDevices :: bool       \<comment> \<open>\<open>SCAN_OPTIONS.keepRepeatedDevices\<close>\<close>
  acceptAllAdvertisements :: bool   \<comment> \<open>\<open>SCAN_OPTIONS.acceptAllAdvertisements\<close>\<close>

definition CONFIG :: config where
  "CONFIG =
     \<lparr> TICKER_INTERVAL_MS = 2000,
       FTS_PROFILES =
         [ \<lparr> cfg_profileName = js ''FTS-Gruppe Ladestation (Typ A)'',
             cfg_type = Service (js ''0xfcf1'') \<rparr>,
           \<lparr> cfg_profileName = js ''FTS '' @ [0x27] @ js ''M.'' @ [0x27] @ js '' (Typ B)'',
             cfg_type = Manufacturer 0xa212 \<rparr> ],
       STRONG = - 75,
       WEAK = - 88,
       ACTIVE_MS = 5000,
       INACTIVE_MS = 30000,
       keepRepeatedDevices = True,
       acceptAllAdvertisements = False \<rparr>"

section \<open>Values of the Web Bluetooth interface\<close>

text \<open>
  The value stored under a key of \<open>event.serviceData\<close> or \<open>event.manufacturerData\<close>:
  a \<open>DataView\<close> over its bytes, \<open>null\<close>/\<open>undefined\<close>, or a view whose buffer is
  detached, on which reading \<open>byteLength\<close> raises a \<open>TypeError\<close>.
\<close>

datatype data_view = DataView "8 word list" | NullView | DetachedView

datatype js_error = TypeError

record event =
  device_id :: jsstring                          \<comment> \<open>\<open>event.device.id\<close>\<close>
  event_rssi :: int                              \<comment> \<open>\<open>event.rssi\<close>\<close>
  serviceData :: "jsstring \<rightharpoonup> data_view"
  manufacturerData :: "nat \<rightharpoonup> data_view"

section \<open>app.js: helper functions\<close>

text \<open>
  The loop of \<open>dataViewToHexString\<close>, over the bytes that remain; \<open>hexString\<close> is the
  string built so far.
\<close>

fun hexLoop :: "jsstring \<Rightarrow> 8 word list \<Rightarrow> jsstring" where
  "hexLoop hexString [] = hexString"
| "hexLoop hexString (b # bs) =
     (let byte = toUpperCase (toString16 (unat b))
      in hexLoop (hexString @ (if length byte = 1 then js ''0'' else js []) @ byte @ js '' '') bs)"

fun dataViewToHexString :: "data_view \<Rightarrow> js_error + jsstring" where
  "dataViewToHexString NullView = Inr (js ''N/A (leere Payload)'')"
| "dataViewToHexString DetachedView = Inl TypeError"
| "dataViewToHexString (DataView bytes) =
     (if length bytes = 0 then Inr (js ''N/A (leere Payload)'')
      else Inr (trim (hexLoop (js ''0x'') bytes)))"

text \<open>
  The rendering as the specification words it: two upper-case hexadecimal digits for
  each byte, the bytes separated by one space, after the prefix \<open>0x\<close>.
\<close>

definition hexByte :: "8 word \<Rightarrow> jsstring" where
  "hexByte b =
     [js ''0123456789ABCDEF'' ! (unat b div 16), js ''0123456789ABCDEF'' ! (unat b mod 16)]"

fun spaceSeparated :: "jsstring list \<Rightarrow> jsstring" where
  "spaceSeparated [] = []"
| "spaceSeparated [w] = w"
| "spaceSeparated (w # ws) = w @ js '' '' @ spaceSeparated ws"

definition renderedHex :: "8 word list \<Rightarrow> jsstring" where
  "renderedHex bytes = js ''0x'' @ spaceSeparated (map hexByte bytes)"

section \<open>app.js: the state of the application\<close>

text \<open>
  The nodes of a tile that \<open>createFtsTile\<close> caches in \<open>asset.dom\<close>, each by the
  content the program writes to it.
  \<^item> \<open>dom_led\<close>: the class name of the LED, \<open>led led-green\<close>, \<open>led led-yellow\<close> or
    \<open>led led-red\<close>; \<open>None\<close> is the bare \<open>led\<close> of the tile's template.
  \<^item> \<open>dom_lastSeen\<close>: the text of the time stamp. \<open>GeradeEben\<close> is "gerade eben",
    \<open>VorSekunden n\<close> is "vor n s", \<open>Verloren ms\<close> is "verloren (>(ms / 1000)s)" and
    \<open>Placeholder\<close> is the "..." of the template.
  \<^item> \<open>dom_rssiValue\<close>: the number shown (\<open>None\<close> is the "..." of the template);
    \<open>dom_rssiBar\<close>: the class of the bar.
  The width of the bar is a floating-point percentage that nothing else reads; it is
  left out.
\<close>

datatype led_class = LedGreen | LedYellow | LedRed

datatype last_seen_text = Placeholder | GeradeEben | VorSekunden int | Verloren int

datatype rssi_class = RssiStrong | RssiMedium | RssiWeak

record tile =
  dom_led :: "led_class option"
  dom_name :: jsstring
  dom_rssiValue :: "int option"
  dom_rssiBar :: "rssi_class option"
  dom_payload :: jsstring
  dom_lastSeen :: last_seen_text

text \<open>
  The asset object (\<open>FtsAsset\<close>). \<open>lastSeen\<close> is a \<open>Date\<close>, held as its
  \<open>getTime()\<close> in milliseconds. \<open>asset_dom\<close> is the property \<open>dom\<close>, absent until
  \<open>createFtsTile\<close> sets it. The property \<open>domElement\<close> is \<open>null\<close> throughout and is
  not represented.
\<close>

record asset =
  asset_id :: jsstring
  rssi :: int
  lastSeen :: int
  payload :: jsstring
  profileName :: jsstring
  name :: jsstring
  rssiHistory :: "int list"
  asset_dom :: "tile option"

text \<open>
  What the program writes to the console, one constructor for each message of the
  source, with the values it interpolates.
\<close>

datatype level = LOG | WARN | ERROR

datatype message =
    StartButtonNotFound               \<comment> \<open>"Start-Button nicht gefunden."\<close>
  | ScanStopped                       \<comment> \<open>"Scan gestoppt."\<close>
  | StopFailed jsstring               \<comment> \<open>"Fehler beim Stoppen des Scans: " e.message\<close>
  | ScanRequested                     \<comment> \<open>"Bluetooth-Scan wird angefordert..."\<close>
  | NoWebBluetooth                    \<comment> \<open>"Web Bluetooth API nicht ... verfuegbar."\<close>
  | InvalidProfileType match_rule     \<comment> \<open>"Ungueltiges Profil-Typ in config.js: " profile.type\<close>
  | NoValidProfiles                   \<comment> \<open>"Keine gueltigen FTS-Profile in config.js definiert. ..."\<close>
  | ScanStartsWith nat                \<comment> \<open>"Scan startet mit n Filtern."\<close>
  | ScanActive                        \<comment> \<open>"Scan aktiv. Warte auf FTS-Pakete..."\<close>
  | ScanAborted                       \<comment> \<open>"Scan-Anforderung vom Benutzer abgebrochen."\<close>
  | ScanFailed jsstring               \<comment> \<open>"Scan fehlgeschlagen: " e.message\<close>
  | NewFts jsstring jsstring          \<comment> \<open>"Neues FTS erkannt: ID " id-prefix "... (" profileName ")"\<close>
  | ExtractFailed jsstring js_error   \<comment> \<open>"Fehler beim Extrahieren der Payload fuer " profileName ": " e.message\<close>
  | AssetNotFound jsstring            \<comment> \<open>"Asset " deviceId " fuer Modal nicht im State gefunden."\<close>
  | InspectorOpened jsstring jsstring \<comment> \<open>"Inspektor geoeffnet fuer: " name " (" id ")"\<close>
  | InspectorClosed                   \<comment> \<open>"Inspektor geschlossen."\<close>
  | NicknameSaved jsstring jsstring   \<comment> \<open>"Nickname fuer " id " gespeichert als: " name\<close>
  | NicknameSaveFailed jsstring       \<comment> \<open>"Speichern des Nicknames fehlgeschlagen: " e.message\<close>
  | NicknameEmpty                     \<comment> \<open>"Speichern fehlgeschlagen: Nickname darf nicht leer sein."\<close>

text \<open>The start button: its text and whether it carries the class \<open>scanning\<close>.\<close>

datatype button_text = ScanStarten | ScanLaeuft

record button =
  textContent :: button_text
  scanning :: bool

text \<open>The \<open>BluetoothLEScan\<close> object that \<open>requestLEScan\<close> resolves to.\<close>

record le_scan =
  active :: bool

text \<open>One filter of the scan options, and one call of \<open>requestLEScan\<close>.\<close>

datatype scan_filter = ServicesFilter jsstring | ManufacturerDataFilter nat

record scan_request =
  req_keepRepeatedDevices :: bool
  req_acceptAllAdvertisements :: bool
  req_filters :: "scan_filter list"

text \<open>
  The module-level variables of \<open>app.js\<close>, the part of the document the program
  reads and writes, and the collaborators it calls:
  \<^item> \<open>cockpitGrid\<close>: the \<open>data-device-id\<close> of the tiles appended to the grid, in order;
  \<^item> \<open>modal_hidden\<close>: whether the modal carries the class \<open>modal-hidden\<close>; the four
    \<open>inspector_*\<close> fields are the elements of the modal, \<open>inspector_name\<close> being the
    value of the input field, which the user edits;
  \<^item> \<open>bluetooth\<close>: whether \<open>navigator.bluetooth\<close> exists; \<open>scanRequests\<close>: the calls
    of \<open>requestLEScan\<close> made so far, oldest first; \<open>listening\<close>: whether
    \<open>handleAdvertisement\<close> is registered for \<open>advertisementreceived\<close>;
  \<^item> \<open>intervals\<close>: the identifiers of the running \<open>setInterval\<close> timers, each of which
    calls \<open>updateAllAssetStatus\<close>; \<open>lastTimerId\<close>: the last identifier handed out
    (identifiers are positive and never reused);
  \<^item> \<open>localStorage\<close>: the stored items; \<open>setItemCalls\<close>: the calls of
    \<open>localStorage.setItem\<close> made so far, oldest first;
  \<^item> \<open>console\<close>: the messages logged since the page was loaded, oldest first.
\<close>

record app_state =
  detectedAssets :: "jsstring \<rightharpoonup> asset"
  scan :: "le_scan option"
  tickerInterval :: "nat option"
  btnStartScan :: "button option"
  currentInspectedId :: "jsstring option"
  cockpitGrid :: "jsstring list"
  modal_hidden :: bool
  inspector_name :: jsstring
  inspector_id :: jsstring
  inspector_payload :: jsstring
  inspector_rssi_history :: "int list"
  bluetooth :: bool
  scanRequests :: "scan_request list"
  listening :: bool
  intervals :: "nat set"
  lastTimerId :: nat
  localStorage :: "jsstring \<rightharpoonup> jsstring"
  setItemCalls :: "(jsstring \<times> jsstring) list"
  console :: "(level \<times> message) list"

definition log :: "message \<Rightarrow> app_state \<Rightarrow> app_state" where
  "log m s = s\<lparr>console := console s @ [(LOG, m)]\<rparr>"

definition warn :: "message \<Rightarrow> app_state \<Rightarrow> app_state" where
  "warn m s = s\<lparr>console := console s @ [(WARN, m)]\<rparr>"

definition error :: "message \<Rightarrow> app_state \<Rightarrow> app_state" where
  "error m s = s\<lparr>console := console s @ [(ERROR, m)]\<rparr>"

text \<open>
  The state once \<open>DOMContentLoaded\<close> has run on a page that has the start button and
  whose browser offers Web Bluetooth: nothing detected, no scan, the modal hidden. The
  messages of the initialisation itself are not counted.
\<close>

definition initialState :: app_state where
  "initialState =
     \<lparr> detectedAssets = Map.empty,
       scan = None,
       tickerInterval = None,
       btnStartScan = Some \<lparr> textContent = ScanStarten, scanning = False \<rparr>,
       currentInspectedId = None,
       cockpitGrid = [],
       modal_hidden = True,
       inspector_name = [],
       inspector_id = [],
       inspector_payload = [],
       inspector_rssi_history = [],
       bluetooth = True,
       scanRequests = [],
       listening = False,
       intervals = {},
       lastTimerId = 0,
       localStorage = Map.empty,
       setItemCalls = [],
       console = [] \<rparr>"

section \<open>app.js: the status of a tile\<close>

text \<open>
  \<open>updateSingleAssetStatus(asset, now)\<close>. \<open>Math.round(diffMs / 1000)\<close> rounds
  to the nearest integer, a tie going up, which on integers is
  \<open>(diffMs + 500) div 1000\<close> (\<open>div\<close> rounds down).
\<close>

definition updateSingleAssetStatus :: "config \<Rightarrow> asset \<Rightarrow> int \<Rightarrow> asset" where
  "updateSingleAssetStatus cfg a now =
     (case asset_dom a of
        None \<Rightarrow> a
      | Some d \<Rightarrow>
          (let diffMs = now - lastSeen a;
               diffSec = (diffMs + 500) div 1000;
               (ledClass, lastSeenText) =
                 (if diffMs < ACTIVE_MS cfg then
                    (LedGreen, if diffSec = 0 then GeradeEben else VorSekunden diffSec)
                  else if diffMs < INACTIVE_MS cfg then
                    (LedYellow, VorSekunden diffSec)
                  else
                    (LedRed, Verloren (INACTIVE_MS cfg)))
           in a\<lparr>asset_dom := Some (d\<lparr>dom_led := Some ledClass, dom_lastSeen := lastSeenText\<rparr>)\<rparr>))"

text \<open>
  \<open>updateFtsTile(asset)\<close>; \<open>t\<close> is the clock as the call of \<open>new Date().getTime()\<close>
  in its last line reads it.
\<close>

definition updateFtsTile :: "config \<Rightarrow> asset \<Rightarrow> int \<Rightarrow> asset" where
  "updateFtsTile cfg a t =
     (case asset_dom a of
        None \<Rightarrow> a
      | Some d \<Rightarrow>
          (let rssiClass =
                 (if rssi a > STRONG cfg then RssiStrong
                  else if rssi a < WEAK cfg then RssiWeak
                  else RssiMedium);
               d' = d\<lparr>dom_rssiValue := Some (rssi a),
                      dom_rssiBar := Some rssiClass,
                      dom_name := name a,
                      dom_payload := take 20 (payload a) @ js ''...''\<rparr>
           in updateSingleAssetStatus cfg (a\<lparr>asset_dom := Some d'\<rparr>) t))"

text \<open>
  \<open>createFtsTile(asset)\<close>, for an asset stored in the registry under its own
  \<open>id\<close>: the object in the registry is the one that receives \<open>dom\<close>. \<open>t1\<close> is the
  clock as \<open>updateFtsTile\<close> reads it, \<open>t2\<close> as the default parameter of the last call
  reads it. The template puts the name into the markup of the tile; the call of
  \<open>updateFtsTile\<close> that follows sets the text of that node to the name itself.
\<close>

definition createFtsTile :: "config \<Rightarrow> asset \<Rightarrow> int \<Rightarrow> int \<Rightarrow> app_state \<Rightarrow> app_state" where
  "createFtsTile cfg a t1 t2 s =
     (let a1 = a\<lparr>asset_dom :=
                  Some \<lparr> dom_led = None, dom_name = name a, dom_rssiValue = None,
                         dom_rssiBar = None, dom_payload = js ''...'',
                         dom_lastSeen = Placeholder \<rparr>\<rparr>;
          s1 = s\<lparr>cockpitGrid := cockpitGrid s @ [asset_id a]\<rparr>;
          a2 = updateFtsTile cfg a1 t1;
          a3 = updateSingleAssetStatus cfg a2 t2
      in s1\<lparr>detectedAssets := (detectedAssets s1)(asset_id a \<mapsto> a3)\<rparr>)"

definition updateAllAssetStatus :: "config \<Rightarrow> int \<Rightarrow> app_state \<Rightarrow> app_state" where
  "updateAllAssetStatus cfg now s =
     s\<lparr>detectedAssets :=
         (\<lambda>k. map_option (\<lambda>a. updateSingleAssetStatus cfg a now) (detectedAssets s k))\<rparr>"

section \<open>app.js: matching an advertisement\<close>

text \<open>
  The body of the \<open>try\<close> block of \<open>extractRelevantPayload\<close> for one profile:
  \<open>Inr (Some payload)\<close> when it returns the payload, \<open>Inr None\<close> when neither
  condition holds, \<open>Inl e\<close> when it raises.
\<close>

definition matchProfile :: "profile \<Rightarrow> event \<Rightarrow> js_error + jsstring option" where
  "matchProfile p ev =
     (case cfg_type p of
        Service uuid \<Rightarrow>
          (case serviceData ev uuid of
             None \<Rightarrow> Inr None
           | Some dv \<Rightarrow>
               (case dataViewToHexString dv of Inl e \<Rightarrow> Inl e | Inr h \<Rightarrow> Inr (Some h)))
      | Manufacturer cid \<Rightarrow>
          (case manufacturerData ev cid of
             None \<Rightarrow> Inr None
           | Some dv \<Rightarrow>
               (case dataViewToHexString dv of Inl e \<Rightarrow> Inl e | Inr h \<Rightarrow> Inr (Some h)))
      | OtherType t \<Rightarrow> Inr None)"

text \<open>
  The loop over the profiles. The result is \<open>Some (payload, profile)\<close>, or \<open>None\<close>
  for \<open>{ payload: null, profile: null }\<close>, with the warnings of the \<open>catch\<close> block
  in the order they are written.
\<close>

fun extractLoop ::
  "profile list \<Rightarrow> event \<Rightarrow> (jsstring \<times> profile) option \<times> (level \<times> message) list" where
  "extractLoop [] ev = (None, [])"
| "extractLoop (p # ps) ev =
     (case matchProfile p ev of
        Inr (Some h) \<Rightarrow> (Some (h, p), [])
      | Inr None \<Rightarrow> extractLoop ps ev
      | Inl e \<Rightarrow>
          (let (r, ws) = extractLoop ps ev
           in (r, (WARN, ExtractFailed (cfg_profileName p) e) # ws)))"

definition extractRelevantPayload ::
  "config \<Rightarrow> event \<Rightarrow> (jsstring \<times> profile) option \<times> (level \<times> message) list" where
  "extractRelevantPayload cfg ev = extractLoop (FTS_PROFILES cfg) ev"

section \<open>app.js: the registry\<close>

text \<open>
  \<open>handleAdvertisement(event)\<close>. \<open>now\<close> is the clock as its third line reads it;
  \<open>t1\<close> and \<open>t2\<close> are the later readings inside \<open>updateFtsTile\<close> and
  \<open>createFtsTile\<close>. \<open>!payload\<close> holds of \<open>null\<close> and of the empty string.
\<close>

definition handleAdvertisement ::
  "config \<Rightarrow> event \<Rightarrow> int \<Rightarrow> int \<Rightarrow> int \<Rightarrow> app_state \<Rightarrow> app_state" where
  "handleAdvertisement cfg ev now t1 t2 s =
     (let deviceId = device_id ev;
          rssi' = event_rssi ev;
          (found, warnings) = extractRelevantPayload cfg ev;
          s1 = s\<lparr>console := console s @ warnings\<rparr>
      in case found of
           None \<Rightarrow> s1
         | Some (payload', profile') \<Rightarrow>
             if payload' = [] then s1
             else
               (case detectedAssets s1 deviceId of
                  Some existingAsset \<Rightarrow>
                    (let h = rssiHistory existingAsset @ [rssi'];
                         a = existingAsset
                               \<lparr>rssi := rssi',
                                lastSeen := now,
                                payload := payload',
                                rssiHistory := (if length h > 20 then tl h else h)\<rparr>
                     in s1\<lparr>detectedAssets :=
                            (detectedAssets s1)(deviceId \<mapsto> updateFtsTile cfg a t1)\<rparr>)
                | None \<Rightarrow>
                    (let s2 = log (NewFts (take 8 deviceId) (cfg_profileName profile')) s1;
                         newAsset =
                           \<lparr> asset_id = deviceId,
                             rssi = rssi',
                             lastSeen = now,
                             payload = payload',
                             profileName = cfg_profileName profile',
                             name = js ''Unbenanntes FTS'',
                             rssiHistory = [rssi'],
                             asset_dom = None \<rparr>;
                         newAsset' =
                           (case localStorage s2 (js ''nickname_'' @ deviceId) of
                              None \<Rightarrow> newAsset
                            | Some savedName \<Rightarrow>
                                if savedName = [] then newAsset
                                else newAsset\<lparr>name := savedName\<rparr>);
                         s3 = s2\<lparr>detectedAssets := (detectedAssets s2)(deviceId \<mapsto> newAsset')\<rparr>
                     in createFtsTile cfg newAsset' t1 t2 s3)))"

section \<open>app.js: the inspector\<close>

definition showInspectorModal :: "jsstring \<Rightarrow> app_state \<Rightarrow> app_state" where
  "showInspectorModal deviceId s =
     (case detectedAssets s deviceId of
        None \<Rightarrow> warn (AssetNotFound deviceId) s
      | Some a \<Rightarrow>
          (log (InspectorOpened (name a) (asset_id a)) (s\<lparr>currentInspectedId := Some deviceId\<rparr>))
            \<lparr>inspector_name := name a,
             inspector_id := asset_id a,
             inspector_payload := payload a,
             inspector_rssi_history := rssiHistory a,
             modal_hidden := False\<rparr>)"

definition hideInspectorModal :: "app_state \<Rightarrow> app_state" where
  "hideInspectorModal s = log InspectorClosed (s\<lparr>modal_hidden := True, currentInspectedId := None\<rparr>)"

text \<open>
  What \<open>localStorage.setItem\<close> does when \<open>saveNickname\<close> calls it: it stores the
  item, or it raises (the storage is full or disabled) with a message.
\<close>

datatype storage_outcome = Stored | StorageRaises jsstring

text \<open>
  \<open>saveNickname()\<close>; \<open>t\<close> is the clock as \<open>updateFtsTile\<close> reads it.
  \<open>!currentInspectedId\<close> holds of \<open>null\<close> and of the empty string.
\<close>

definition saveNickname :: "config \<Rightarrow> storage_outcome \<Rightarrow> int \<Rightarrow> app_state \<Rightarrow> app_state" where
  "saveNickname cfg outcome t s =
     (case currentInspectedId s of
        None \<Rightarrow> s
      | Some cid \<Rightarrow>
          if cid = [] then s
          else
            (case detectedAssets s cid of
               None \<Rightarrow> s
             | Some asset \<Rightarrow>
                 (let newName = inspector_name s
                  in if newName \<noteq> [] \<and> trim newName \<noteq> [] then
                       (let a = asset\<lparr>name := trim newName\<rparr>;
                            key = js ''nickname_'' @ asset_id a;
                            s1 = s\<lparr>detectedAssets := (detectedAssets s)(cid \<mapsto> a),
                                   setItemCalls := setItemCalls s @ [(key, name a)]\<rparr>;
                            s2 = (case outcome of
                                    Stored \<Rightarrow>
                                      log (NicknameSaved (asset_id a) (name a))
                                        (s1\<lparr>localStorage := (localStorage s1)(key \<mapsto> name a)\<rparr>)
                                  | StorageRaises m \<Rightarrow> error (NicknameSaveFailed m) s1);
                            s3 = s2\<lparr>detectedAssets :=
                                     (detectedAssets s2)(cid \<mapsto> updateFtsTile cfg a t)\<rparr>
                        in hideInspectorModal s3)
                     else warn NicknameEmpty s)))"

section \<open>app.js: the scan\<close>

text \<open>
  What the scan source answers: \<open>requestLEScan\<close> resolves to a scan object, or it
  rejects with an error of a name and a message; \<open>scan.stop()\<close> returns, or raises
  with a message.
\<close>

datatype request_outcome = Granted | Rejected jsstring jsstring

datatype stop_outcome = Stopped | StopRaises jsstring

text \<open>
  The filters built from the profiles, in order, with a warning for each profile of
  another type (the \<open>map\<close> and \<open>filter(Boolean)\<close> of \<open>startScan\<close>).
\<close>

fun buildFilters :: "profile list \<Rightarrow> scan_filter list \<times> (level \<times> message) list" where
  "buildFilters [] = ([], [])"
| "buildFilters (p # ps) =
     (let (fs, ws) = buildFilters ps
      in case cfg_type p of
           Service uuid \<Rightarrow> (ServicesFilter uuid # fs, ws)
         | Manufacturer cid \<Rightarrow> (ManufacturerDataFilter cid # fs, ws)
         | OtherType t \<Rightarrow> (fs, (WARN, InvalidProfileType (cfg_type p)) # ws))"

definition clearInterval :: "nat \<Rightarrow> app_state \<Rightarrow> app_state" where
  "clearInterval i s = s\<lparr>intervals := intervals s - {i}\<rparr>"

definition setInterval :: "app_state \<Rightarrow> nat \<times> app_state" where
  "setInterval s =
     (let i = Suc (lastTimerId s)
      in (i, s\<lparr>intervals := insert i (intervals s), lastTimerId := i\<rparr>))"

text \<open>
  \<open>startScan()\<close>, taken as one step with the answer of the scan source. It
  dereferences \<open>btnStartScan\<close> without a check; where the button is missing that is a
  \<open>TypeError\<close> which leaves the function.
\<close>

definition startScan :: "config \<Rightarrow> request_outcome \<Rightarrow> app_state \<Rightarrow> js_error + app_state" where
  "startScan cfg outcome s =
     (let s1 = log ScanRequested s
      in if \<not> bluetooth s1 then Inr (error NoWebBluetooth s1)
         else
           (let (filters, warnings) = buildFilters (FTS_PROFILES cfg);
                s2 = s1\<lparr>console := console s1 @ warnings\<rparr>
            in if length filters = 0 then Inr (error NoValidProfiles s2)
               else
                 (let s3 = log (ScanStartsWith (length filters)) s2;
                      s4 = s3\<lparr>scanRequests := scanRequests s3 @
                                [\<lparr> req_keepRepeatedDevices = keepRepeatedDevices cfg,
                                    req_acceptAllAdvertisements = acceptAllAdvertisements cfg,
                                    req_filters = filters \<rparr>]\<rparr>
                  in case btnStartScan s4 of
                       None \<Rightarrow> Inl TypeError
                     | Some b \<Rightarrow>
                         (case outcome of
                            Granted \<Rightarrow>
                              (let s5 = s4\<lparr>scan := Some \<lparr> active = True \<rparr>, listening := True\<rparr>;
                                   s6 = s5\<lparr>btnStartScan :=
                                            Some (b\<lparr>textContent := ScanLaeuft, scanning := True\<rparr>)\<rparr>;
                                   s7 = log ScanActive s6;
                                   s8 = (case tickerInterval s7 of
                                           None \<Rightarrow> s7
                                         | Some i \<Rightarrow> if i = 0 then s7 else clearInterval i s7);
                                   (i', s9) = setInterval s8
                               in Inr (s9\<lparr>tickerInterval := Some i'\<rparr>))
                          | Rejected ename emessage \<Rightarrow>
                              (let s5 = (if ename = js ''AbortError'' then warn ScanAborted s4
                                         else error (ScanFailed emessage) s4)
                               in Inr (s5\<lparr>btnStartScan :=
                                            Some (b\<lparr>textContent := ScanStarten,
                                                    scanning := False\<rparr>)\<rparr>))))))"

text \<open>
  \<open>toggleScan()\<close>, the handler of the start button, with the answers of the scan
  source to \<open>scan.stop()\<close> and to \<open>requestLEScan\<close>.
\<close>

definition toggleScan ::
  "config \<Rightarrow> stop_outcome \<Rightarrow> request_outcome \<Rightarrow> app_state \<Rightarrow> js_error + app_state" where
  "toggleScan cfg stopped outcome s =
     (case btnStartScan s of
        None \<Rightarrow> Inr (error StartButtonNotFound s)
      | Some b \<Rightarrow>
          (case scan s of
             None \<Rightarrow> startScan cfg outcome s
           | Some sc \<Rightarrow>
               if active sc then
                 (case stopped of
                    StopRaises m \<Rightarrow> Inr (error (StopFailed m) s)
                  | Stopped \<Rightarrow>
                      (let s1 = s\<lparr>scan := Some (sc\<lparr>active := False\<rparr>)\<rparr>;
                           s2 = log ScanStopped s1;
                           s3 = s2\<lparr>btnStartScan :=
                                    Some (b\<lparr>textContent := ScanStarten, scanning := False\<rparr>)\<rparr>;
                           s4 = (case tickerInterval s3 of
                                   None \<Rightarrow> s3
                                 | Some i \<Rightarrow> if i = 0 then s3 else clearInterval i s3)
                       in Inr (s4\<lparr>tickerInterval := None\<rparr>)))
               else startScan cfg outcome s))"

section \<open>Runs of the application\<close>

text \<open>
  What can happen to the registry once the page is loaded: an advertisement arrives,
  the ticker fires, the user opens a tile, closes the modal, edits the name field, or
  saves the name; each with the readings of the clock and the answers of the
  collaborators that the handler consumes.
\<close>

datatype action =
    Advertisement event int int int
  | Tick int
  | OpenTile jsstring
  | CloseModal
  | EditName jsstring
  | SaveName storage_outcome int

fun step :: "config \<Rightarrow> app_state \<Rightarrow> action \<Rightarrow> app_state" where
  "step cfg s (Advertisement ev now t1 t2) = handleAdvertisement cfg ev now t1 t2 s"
| "step cfg s (Tick now) = updateAllAssetStatus cfg now s"
| "step cfg s (OpenTile deviceId) = showInspectorModal deviceId s"
| "step cfg s CloseModal = hideInspectorModal s"
| "step cfg s (EditName v) = s\<lparr>inspector_name := v\<rparr>"
| "step cfg s (SaveName outcome t) = saveNickname cfg outcome t s"

definition run :: "config \<Rightarrow> app_state \<Rightarrow> action list \<Rightarrow> app_state" where
  "run cfg s acts = foldl (step cfg) s acts"

text \<open>
  An advertisement that \<open>handleAdvertisement\<close> does not discard: the matcher returns a
  payload, and the payload is not the empty string.
\<close>

definition matched :: "config \<Rightarrow> event \<Rightarrow> bool" where
  "matched cfg ev =
     (case fst (extractRelevantPayload cfg ev) of
        None \<Rightarrow> False
      | Some (payload', profile') \<Rightarrow> payload' \<noteq> [])"

text \<open>
  The signal strengths of the advertisements of device \<open>d\<close> in a run that are not
  discarded, in the order of arrival.
\<close>

fun observations :: "config \<Rightarrow> jsstring \<Rightarrow> action list \<Rightarrow> int list" where
  "observations cfg d [] = []"
| "observations cfg d (Advertisement ev now t1 t2 # acts) =
     (if device_id ev = d \<and> matched cfg ev then event_rssi ev # observations cfg d acts
      else observations cfg d acts)"
| "observations cfg d (_ # acts) = observations cfg d acts"

section \<open>Observations and examples\<close>

text \<open>The class of the LED of an asset's tile, where the asset has a tile.\<close>

definition led :: "asset \<Rightarrow> led_class option" where
  "led a = (case asset_dom a of None \<Rightarrow> None | Some d \<Rightarrow> dom_led d)"

text \<open>A tile as \<open>createFtsTile\<close> builds it from its template, and an asset that has it.\<close>

definition exampleTile :: tile where
  "exampleTile =
     \<lparr> dom_led = None, dom_name = js ''Unbenanntes FTS'', dom_rssiValue = None,
       dom_rssiBar = None, dom_payload = js ''...'', dom_lastSeen = Placeholder \<rparr>"

definition exampleAsset :: asset where
  "exampleAsset =
     \<lparr> asset_id = js ''dev-1'', rssi = - 70, lastSeen = 1000, payload = js ''0x04 37'',
       profileName = js ''FTS-Gruppe Ladestation (Typ A)'', name = js ''Unbenanntes FTS'',
       rssiHistory = [- 70], asset_dom = Some exampleTile \<rparr>"

text \<open>A state whose registry holds the example asset, its tile in the grid.\<close>

definition exampleState :: app_state where
  "exampleState =
     initialState
       \<lparr>detectedAssets := [asset_id exampleAsset \<mapsto> exampleAsset],
        cockpitGrid := [asset_id exampleAsset]\<rparr>"

text \<open>
  An advertisement that carries service data for the first configured profile, in a
  view that cannot be read.
\<close>

definition detachedEvent :: event where
  "detachedEvent =
     \<lparr> device_id = js ''dev-2'', event_rssi = - 80,
       serviceData = [js ''0xfcf1'' \<mapsto> DetachedView],
       manufacturerData = Map.empty \<rparr>"

text \<open>
  The example state once the user has opened the tile of the example asset and typed
  \<open>v\<close> into the name field.
\<close>

definition inspecting :: "jsstring \<Rightarrow> app_state" where
  "inspecting v = run CONFIG exampleState [OpenTile (asset_id exampleAsset), EditName v]"

text \<open>The state after one press of the start button that the scan source grants.\<close>

definition scanningState :: app_state where
  "scanningState =
     (case toggleScan CONFIG Stopped Granted initialState of
        Inr s \<Rightarrow> s
      | Inl e \<Rightarrow> initialState)"

text \<open>The newest \<open>n\<close> entries of a list that grows at its end, in their order.\<close>

definition newest :: "nat \<Rightarrow> 'a list \<Rightarrow> 'a list" where
  "newest n xs = drop (length xs - n) xs"

text \<open>
  Advertisements of the device \<open>dev-1\<close> with signal strength \<open>r\<close>: one with service
  data for the first configured profile, one with manufacturer data for the second.
\<close>

definition beacon :: "int \<Rightarrow> event" where
  "beacon r =
     \<lparr> device_id = js ''dev-1'', event_rssi = r,
       serviceData = [js ''0xfcf1'' \<mapsto> DataView [0x04, 0x37]],
       manufacturerData = Map.empty \<rparr>"

definition beaconB :: "int \<Rightarrow> event" where
  "beaconB r =
     \<lparr> device_id = js ''dev-1'', event_rssi = r,
       serviceData = Map.empty,
       manufacturerData = [0xa212 \<mapsto> DataView [0x01]] \<rparr>"

text \<open>A run of advertisements of \<open>dev-1\<close> with the given signal strengths.\<close>

definition beacons :: "int list \<Rightarrow> action list" where
  "beacons rs = map (\<lambda>r. Advertisement (beacon r) 0 0 0) rs"

text \<open>Every asset of the registry has its tile.\<close>

definition tiled :: "app_state \<Rightarrow> bool" where
  "tiled s \<longleftrightarrow> (\<forall>d a. detectedAssets s d = Some a \<longrightarrow> asset_dom a \<noteq> None)"

section \<open>Hexadecimal rendering of payloads\<close>

declare toString16.simps [simp del]

lemma upper_digit:
  assumes "k < 16"
  shows "toUpperCase [js ''0123456789abcdef'' ! k] = [js ''0123456789ABCDEF'' ! k]"
proof -
  from assms have "k \<in> set [0..<16]" by simp
  then show ?thesis
    by (auto simp: upt_rec js_def toUpperCase_def)
qed

lemma upper_digit_not_ws:
  assumes "k < 16"
  shows "\<not> isWhiteSpace (js ''0123456789ABCDEF'' ! k)"
proof -
  from assms have "k \<in> set [0..<16]" by simp
  then show ?thesis
    by (auto simp: upt_rec js_def isWhiteSpace_def)
qed

lemma byte_hex:
  "(let byte = toUpperCase (toString16 (unat b))
    in (if length byte = 1 then js ''0'' else js []) @ byte) = hexByte (b :: 8 word)"
proof -
  have lt: "unat b < 256"
    using unsigned_less [of b, where ?'a = nat] by simp
  show ?thesis
  proof (cases "unat b < 16")
    case True
    then have "toString16 (unat b) = [js ''0123456789abcdef'' ! unat b]"
      by (subst toString16.simps) simp
    with True show ?thesis
      by (simp add: upper_digit hexByte_def) (simp add: js_def)
  next
    case False
    with lt have d: "unat b div 16 < 16" by simp
    have m: "unat b mod 16 < 16" by simp
    have "toString16 (unat b div 16) = [js ''0123456789abcdef'' ! (unat b div 16)]"
      using d by (subst toString16.simps) simp
    moreover have "toString16 (unat b) =
        toString16 (unat b div 16) @ [js ''0123456789abcdef'' ! (unat b mod 16)]"
      using False by (subst toString16.simps) simp
    ultimately have "toString16 (unat b) =
        [js ''0123456789abcdef'' ! (unat b div 16), js ''0123456789abcdef'' ! (unat b mod 16)]"
      by simp
    then show ?thesis
      using upper_digit [OF d] upper_digit [OF m]
      by (simp add: hexByte_def toUpperCase_def js_def)
  qed
qed

lemma hexLoop_concat:
  "hexLoop acc bs = acc @ concat (map (\<lambda>b. hexByte b @ js '' '') bs)"
proof (induction bs arbitrary: acc)
  case Nil
  show ?case by simp
next
  case (Cons b bs)
  have "hexLoop acc (b # bs) = hexLoop (acc @ hexByte b @ js '' '') bs"
    by (simp add: Let_def byte_hex [of b, unfolded Let_def, symmetric])
  then show ?case
    by (simp add: Cons.IH)
qed

lemma spaceSeparated_Cons:
  "ws \<noteq> [] \<Longrightarrow> spaceSeparated (w # ws) = w @ js '' '' @ spaceSeparated ws"
  by (cases ws) simp_all

lemma concat_spaceSeparated:
  "ws \<noteq> [] \<Longrightarrow> concat (map (\<lambda>w. w @ js '' '') ws) = spaceSeparated ws @ js '' ''"
proof (induction ws)
  case Nil
  then show ?case by simp
next
  case (Cons w ws)
  then show ?case
    by (cases "ws = []") (simp_all add: spaceSeparated_Cons)
qed

lemma last_spaceSeparated:
  "ws \<noteq> [] \<Longrightarrow> last ws \<noteq> [] \<Longrightarrow>
     spaceSeparated ws \<noteq> [] \<and> last (spaceSeparated ws) = last (last ws)"
proof (induction ws)
  case Nil
  then show ?case by simp
next
  case (Cons w ws)
  then show ?case
    by (cases "ws = []") (simp_all add: spaceSeparated_Cons)
qed

lemma trim_trailing_space:
  assumes "s \<noteq> []" and "\<not> isWhiteSpace (hd s)" and "\<not> isWhiteSpace (last s)"
  shows "trim (s @ js '' '') = s"
proof -
  from assms obtain c cs where s: "s = c # cs" "\<not> isWhiteSpace c"
    by (cases s) auto
  from assms obtain d ds where r: "rev s = d # ds" "\<not> isWhiteSpace d"
    by (cases "rev s") (auto simp: last_rev [symmetric] hd_rev)
  have sp: "isWhiteSpace 0x20"
    by (simp add: isWhiteSpace_def)
  have "dropWhile isWhiteSpace (s @ js '' '') = s @ js '' ''"
    using s by simp
  moreover have "dropWhile isWhiteSpace (rev (s @ js '' '')) = rev s"
    using r sp by (simp add: js_def)
  ultimately show ?thesis
    by (simp add: trim_def)
qed

text \<open>
  C4, as the code has it: \<open>dataViewToHexString\<close> renders \<open>null\<close>, \<open>undefined\<close> and
  an empty view as the string "N/A (leere Payload)", and a view of one or more bytes
  as "0x" followed by the bytes, each as two upper-case hexadecimal digits, separated
  by single spaces.
\<close>

theorem dataViewToHexString_renders:
  "dataViewToHexString NullView = Inr (js ''N/A (leere Payload)'') \<and>
   dataViewToHexString (DataView []) = Inr (js ''N/A (leere Payload)'') \<and>
   (bytes \<noteq> [] \<longrightarrow> dataViewToHexString (DataView bytes) = Inr (renderedHex bytes))"
proof -
  have "trim (hexLoop (js ''0x'') bytes) = renderedHex bytes" if ne: "bytes \<noteq> []"
  proof -
    let ?ws = "map hexByte bytes"
    have ws: "?ws \<noteq> []" "last ?ws \<noteq> []" "hd ?ws \<noteq> []"
      using ne by (simp_all add: last_map hd_map hexByte_def)
    have l: "last (spaceSeparated ?ws) = last (hexByte (last bytes))"
      using last_spaceSeparated [OF ws(1,2)] ne by (simp add: last_map)
    have ne2: "spaceSeparated ?ws \<noteq> []"
      using last_spaceSeparated [OF ws(1,2)] by simp
    have "last (renderedHex bytes) = last (spaceSeparated ?ws)"
      using ne2 by (simp add: renderedHex_def)
    also have "\<dots> = last (hexByte (last bytes))"
      by (rule l)
    also have "\<dots> = js ''0123456789ABCDEF'' ! (unat (last bytes) mod 16)"
      by (simp add: hexByte_def)
    finally have "\<not> isWhiteSpace (last (renderedHex bytes))"
      by (simp add: upper_digit_not_ws)
    moreover have "\<not> isWhiteSpace (hd (renderedHex bytes))"
      by (simp add: renderedHex_def js_def isWhiteSpace_def)
    moreover have "renderedHex bytes \<noteq> []"
      by (simp add: renderedHex_def js_def)
    moreover have "hexLoop (js ''0x'') bytes = renderedHex bytes @ js '' ''"
      using concat_spaceSeparated [OF ws(1)]
      by (simp add: hexLoop_concat renderedHex_def comp_def)
    ultimately show ?thesis
      by (simp add: trim_trailing_space)
  qed
  then show ?thesis
    by simp
qed

theorem dataViewToHexString_renders_witness:
  "[0x04, 0x37] \<noteq> ([] :: 8 word list) \<and>
   dataViewToHexString (DataView [0x04, 0x37]) = Inr (js ''0x04 37'')"
  using dataViewToHexString_renders [of "[0x04, 0x37]"]
  by (simp add: renderedHex_def hexByte_def js_def)

theorem dataViewToHexString_sentinel_counterexample:
  "dataViewToHexString (DataView []) \<noteq> Inr (js ''N/A (empty payload)'')"
  by (simp add: js_def)

section \<open>Freshness of an asset\<close>

text \<open>
  C1: with \<open>elapsed = now - lastSeen\<close>, the LED of an asset's tile is set to green
  (fresh) iff \<open>elapsed < ACTIVE_MS\<close>, to yellow (stale) iff
  \<open>ACTIVE_MS \<le> elapsed < INACTIVE_MS\<close>, and to red (lost) iff
  \<open>elapsed \<ge> INACTIVE_MS\<close>. With the configured 5000 and 30000, an elapsed time of
  4999 gives green, 5000 gives yellow and 30000 gives red.
\<close>

theorem freshness_bands:
  assumes "asset_dom a = Some d" and "ACTIVE_MS cfg \<le> INACTIVE_MS cfg"
  shows "(led (updateSingleAssetStatus cfg a now) = Some LedGreen
            \<longleftrightarrow> now - lastSeen a < ACTIVE_MS cfg) \<and>
         (led (updateSingleAssetStatus cfg a now) = Some LedYellow
            \<longleftrightarrow> ACTIVE_MS cfg \<le> now - lastSeen a \<and> now - lastSeen a < INACTIVE_MS cfg) \<and>
         (led (updateSingleAssetStatus cfg a now) = Some LedRed
            \<longleftrightarrow> INACTIVE_MS cfg \<le> now - lastSeen a)"
  using assms by (auto simp: updateSingleAssetStatus_def led_def Let_def)

theorem freshness_bands_witness:
  "asset_dom exampleAsset = Some exampleTile \<and> ACTIVE_MS CONFIG \<le> INACTIVE_MS CONFIG \<and>
   ACTIVE_MS CONFIG = 5000 \<and> INACTIVE_MS CONFIG = 30000 \<and>
   led (updateSingleAssetStatus CONFIG exampleAsset (lastSeen exampleAsset + 4999)) = Some LedGreen \<and>
   led (updateSingleAssetStatus CONFIG exampleAsset (lastSeen exampleAsset + 5000)) = Some LedYellow \<and>
   led (updateSingleAssetStatus CONFIG exampleAsset (lastSeen exampleAsset + 30000)) = Some LedRed"
proof -
  have h: "asset_dom exampleAsset = Some exampleTile" "ACTIVE_MS CONFIG \<le> INACTIVE_MS CONFIG"
    by (simp_all add: exampleAsset_def CONFIG_def)
  show ?thesis
    using h freshness_bands [OF h, of "lastSeen exampleAsset + 4999"]
      freshness_bands [OF h, of "lastSeen exampleAsset + 5000"]
      freshness_bands [OF h, of "lastSeen exampleAsset + 30000"]
    by (simp add: CONFIG_def)
qed

text \<open>
  C10: an elapsed time below the active window, and so every negative one (the asset
  was last seen after \<open>now\<close>), sets the LED to green.
\<close>

theorem future_lastSeen_is_fresh:
  assumes "asset_dom a = Some d"
  shows "(now - lastSeen a < ACTIVE_MS CONFIG \<longrightarrow>
            led (updateSingleAssetStatus CONFIG a now) = Some LedGreen) \<and>
         (now < lastSeen a \<longrightarrow> led (updateSingleAssetStatus CONFIG a now) = Some LedGreen)"
  using assms by (auto simp: updateSingleAssetStatus_def led_def Let_def CONFIG_def)

theorem future_lastSeen_is_fresh_witness:
  "asset_dom exampleAsset = Some exampleTile \<and>
   0 - lastSeen exampleAsset < ACTIVE_MS CONFIG \<and> 0 < lastSeen exampleAsset \<and>
   led (updateSingleAssetStatus CONFIG exampleAsset 0) = Some LedGreen"
proof -
  have h: "asset_dom exampleAsset = Some exampleTile"
    by (simp add: exampleAsset_def)
  show ?thesis
    using h future_lastSeen_is_fresh [OF h, of 0]
    by (simp add: exampleAsset_def CONFIG_def)
qed

section \<open>The fields that drawing a tile leaves alone\<close>

lemma updateSingleAssetStatus_fields [simp]:
  "asset_id (updateSingleAssetStatus cfg a now) = asset_id a"
  "rssi (updateSingleAssetStatus cfg a now) = rssi a"
  "lastSeen (updateSingleAssetStatus cfg a now) = lastSeen a"
  "payload (updateSingleAssetStatus cfg a now) = payload a"
  "profileName (updateSingleAssetStatus cfg a now) = profileName a"
  "name (updateSingleAssetStatus cfg a now) = name a"
  "rssiHistory (updateSingleAssetStatus cfg a now) = rssiHistory a"
  by (simp_all add: updateSingleAssetStatus_def Let_def split: option.split prod.split)

lemma updateSingleAssetStatus_dom [simp]:
  "asset_dom (updateSingleAssetStatus cfg a now) = None \<longleftrightarrow> asset_dom a = None"
  by (simp add: updateSingleAssetStatus_def Let_def split: option.split prod.split)

lemma updateFtsTile_fields [simp]:
  "asset_id (updateFtsTile cfg a t) = asset_id a"
  "rssi (updateFtsTile cfg a t) = rssi a"
  "lastSeen (updateFtsTile cfg a t) = lastSeen a"
  "payload (updateFtsTile cfg a t) = payload a"
  "profileName (updateFtsTile cfg a t) = profileName a"
  "name (updateFtsTile cfg a t) = name a"
  "rssiHistory (updateFtsTile cfg a t) = rssiHistory a"
  by (simp_all add: updateFtsTile_def Let_def split: option.split)

lemma updateFtsTile_dom [simp]:
  "asset_dom (updateFtsTile cfg a t) = None \<longleftrightarrow> asset_dom a = None"
  by (simp add: updateFtsTile_def Let_def split: option.split)

section \<open>Discarded advertisements\<close>

text \<open>The matcher finds nothing iff no profile returns a payload.\<close>

lemma extractLoop_None_iff:
  "fst (extractLoop ps ev) = None \<longleftrightarrow> (\<forall>p \<in> set ps. \<forall>h. matchProfile p ev \<noteq> Inr (Some h))"
  by (induction ps) (auto split: sum.splits option.splits prod.splits)

text \<open>
  C7: when the matcher finds no profile for an advertisement, which includes the case
  that the extraction raised for every profile whose key the advertisement carries,
  \<open>handleAdvertisement\<close> returns without touching the registry: no asset is created
  and no asset is changed. All it leaves behind are the warnings of the matcher on
  the console.
\<close>

theorem unmatched_advertisement_discarded:
  assumes "fst (extractRelevantPayload cfg ev) = None"
  shows "handleAdvertisement cfg ev now t1 t2 s =
           s\<lparr>console := console s @ snd (extractRelevantPayload cfg ev)\<rparr> \<and>
         detectedAssets (handleAdvertisement cfg ev now t1 t2 s) = detectedAssets s"
  using assms
  by (cases "extractRelevantPayload cfg ev") (simp add: handleAdvertisement_def Let_def)

theorem unmatched_advertisement_discarded_witness:
  "fst (extractRelevantPayload CONFIG detachedEvent) = None \<and>
   matchProfile (hd (FTS_PROFILES CONFIG)) detachedEvent = Inl TypeError \<and>
   handleAdvertisement CONFIG detachedEvent 2000 2001 2002 exampleState =
     exampleState\<lparr>console := [(WARN, ExtractFailed (js ''FTS-Gruppe Ladestation (Typ A)'') TypeError)]\<rparr> \<and>
   detectedAssets (handleAdvertisement CONFIG detachedEvent 2000 2001 2002 exampleState) =
     detectedAssets exampleState"
proof -
  have h: "fst (extractRelevantPayload CONFIG detachedEvent) = None"
    by (simp add: extractRelevantPayload_def CONFIG_def detachedEvent_def matchProfile_def js_def)
  have w: "snd (extractRelevantPayload CONFIG detachedEvent) =
      [(WARN, ExtractFailed (js ''FTS-Gruppe Ladestation (Typ A)'') TypeError)]"
    by (simp add: extractRelevantPayload_def CONFIG_def detachedEvent_def matchProfile_def js_def)
  have m: "matchProfile (hd (FTS_PROFILES CONFIG)) detachedEvent = Inl TypeError"
    by (simp add: CONFIG_def detachedEvent_def matchProfile_def)
  have c: "console exampleState = []"
    by (simp add: exampleState_def initialState_def)
  show ?thesis
    using h m unmatched_advertisement_discarded [OF h, of 2000 2001 2002 exampleState]
    by (simp add: w c)
qed

section \<open>Renaming an asset\<close>

lemma trim_Nil [simp]: "trim [] = []"
  by (simp add: trim_def)

lemma trim_empty_iff: "trim s = [] \<longleftrightarrow> (\<forall>c \<in> set s. isWhiteSpace c)"
proof -
  let ?t = "dropWhile isWhiteSpace s"
  have "trim s = [] \<longleftrightarrow> (\<forall>x \<in> set ?t. isWhiteSpace x)"
    by (simp add: trim_def dropWhile_eq_Nil_conv)
  also have "\<dots> \<longleftrightarrow> ?t = []"
  proof
    assume a: "\<forall>x \<in> set ?t. isWhiteSpace x"
    show "?t = []"
    proof (rule ccontr)
      assume ne: "?t \<noteq> []"
      then have "\<not> isWhiteSpace (hd ?t)"
        by (rule hd_dropWhile)
      moreover from ne have "hd ?t \<in> set ?t"
        by simp
      ultimately show False
        using a by blast
    qed
  qed (auto dest: set_dropWhileD)
  also have "\<dots> \<longleftrightarrow> (\<forall>c \<in> set s. isWhiteSpace c)"
    by (simp add: dropWhile_eq_Nil_conv)
  finally show ?thesis .
qed

text \<open>
  C8: for the asset under inspection and the name typed into the inspector: if the
  name is empty after trimming, \<open>saveNickname\<close> rejects it with the warning that the
  nickname must not be empty and changes neither the registry nor the storage;
  otherwise the asset's name becomes the trimmed string (" Forklift-3 " is stored as
  "Forklift-3") and the pair of the asset's identity and the trimmed name is handed to
  \<open>localStorage.setItem\<close>.
\<close>

theorem saveNickname_label:
  assumes "currentInspectedId s = Some d" and "d \<noteq> []" and "detectedAssets s d = Some a"
  shows "(trim (inspector_name s) = [] \<longrightarrow>
            saveNickname cfg outcome t s = warn NicknameEmpty s \<and>
            detectedAssets (saveNickname cfg outcome t s) = detectedAssets s \<and>
            setItemCalls (saveNickname cfg outcome t s) = setItemCalls s) \<and>
         (trim (inspector_name s) \<noteq> [] \<longrightarrow>
            (\<exists>a'. detectedAssets (saveNickname cfg outcome t s) d = Some a' \<and>
                  name a' = trim (inspector_name s)) \<and>
            setItemCalls (saveNickname cfg outcome t s) =
              setItemCalls s @ [(js ''nickname_'' @ asset_id a, trim (inspector_name s))])"
  using assms
  by (cases outcome)
    (auto simp: saveNickname_def Let_def warn_def log_def error_def hideInspectorModal_def)

lemma inspecting_facts:
  "currentInspectedId (inspecting v) = Some (js ''dev-1'')"
  "detectedAssets (inspecting v) (js ''dev-1'') = Some exampleAsset"
  "inspector_name (inspecting v) = v"
  "setItemCalls (inspecting v) = []"
  "localStorage (inspecting v) = Map.empty"
  "console (inspecting v) = [(LOG, InspectorOpened (js ''Unbenanntes FTS'') (js ''dev-1''))]"
  by (simp_all add: inspecting_def run_def showInspectorModal_def exampleState_def
      exampleAsset_def initialState_def log_def)

theorem saveNickname_label_witness:
  "currentInspectedId (inspecting (js '' Forklift-3 '')) = Some (js ''dev-1'') \<and>
   js ''dev-1'' \<noteq> [] \<and>
   detectedAssets (inspecting (js '' Forklift-3 '')) (js ''dev-1'') = Some exampleAsset \<and>
   trim (inspector_name (inspecting (js '' Forklift-3 ''))) = js ''Forklift-3'' \<and>
   (\<exists>a'. detectedAssets (saveNickname CONFIG Stored 3000 (inspecting (js '' Forklift-3 '')))
           (js ''dev-1'') = Some a' \<and> name a' = js ''Forklift-3'') \<and>
   setItemCalls (saveNickname CONFIG Stored 3000 (inspecting (js '' Forklift-3 ''))) =
     [(js ''nickname_dev-1'', js ''Forklift-3'')] \<and>
   trim (inspector_name (inspecting (js ''   ''))) = [] \<and>
   saveNickname CONFIG Stored 3000 (inspecting (js ''   '')) =
     warn NicknameEmpty (inspecting (js ''   '')) \<and>
   detectedAssets (saveNickname CONFIG Stored 3000 (inspecting (js ''   ''))) (js ''dev-1'') =
     Some exampleAsset"
proof -
  have d: "js ''dev-1'' \<noteq> []"
    by (simp add: js_def)
  have t1: "trim (js '' Forklift-3 '') = js ''Forklift-3''"
    by (simp add: trim_def js_def isWhiteSpace_def)
  have t2: "trim (js ''   '') = []"
    by (simp add: trim_def js_def isWhiteSpace_def)
  have k: "js ''nickname_'' @ asset_id exampleAsset = js ''nickname_dev-1''"
    by (simp add: exampleAsset_def js_def)
  have f: "js ''Forklift-3'' \<noteq> []"
    by (simp add: js_def)
  show ?thesis
    using saveNickname_label [OF inspecting_facts(1) d inspecting_facts(2), of "js '' Forklift-3 ''" CONFIG Stored 3000]
      saveNickname_label [OF inspecting_facts(1) d inspecting_facts(2), of "js ''   ''" CONFIG Stored 3000]
    by (simp add: inspecting_facts t1 t2 k d f warn_def)
qed

text \<open>
  C9: after a name that passes the check, the asset's name is the trimmed name
  whatever \<open>localStorage.setItem\<close> did; when it raised, the error is reported on the
  console and the storage is as before.
\<close>

theorem saveNickname_storage_failure:
  assumes "currentInspectedId s = Some d" and "d \<noteq> []" and "detectedAssets s d = Some a"
    and "trim (inspector_name s) \<noteq> []"
  shows "(\<exists>a'. detectedAssets (saveNickname cfg outcome t s) d = Some a' \<and>
               name a' = trim (inspector_name s)) \<and>
         (outcome = StorageRaises m \<longrightarrow>
            console (saveNickname cfg outcome t s) =
              console s @ [(ERROR, NicknameSaveFailed m), (LOG, InspectorClosed)] \<and>
            localStorage (saveNickname cfg outcome t s) = localStorage s)"
  using assms
  by (cases outcome)
    (auto simp: saveNickname_def Let_def warn_def log_def error_def hideInspectorModal_def)

theorem saveNickname_storage_failure_witness:
  "currentInspectedId (inspecting (js '' Forklift-3 '')) = Some (js ''dev-1'') \<and>
   js ''dev-1'' \<noteq> [] \<and>
   detectedAssets (inspecting (js '' Forklift-3 '')) (js ''dev-1'') = Some exampleAsset \<and>
   trim (inspector_name (inspecting (js '' Forklift-3 ''))) \<noteq> [] \<and>
   (\<exists>a'. detectedAssets
           (saveNickname CONFIG (StorageRaises (js ''QuotaExceededError'')) 3000
              (inspecting (js '' Forklift-3 ''))) (js ''dev-1'') = Some a' \<and>
         name a' = js ''Forklift-3'') \<and>
   console (saveNickname CONFIG (StorageRaises (js ''QuotaExceededError'')) 3000
              (inspecting (js '' Forklift-3 ''))) =
     [(LOG, InspectorOpened (js ''Unbenanntes FTS'') (js ''dev-1'')),
      (ERROR, NicknameSaveFailed (js ''QuotaExceededError'')),
      (LOG, InspectorClosed)] \<and>
   localStorage (saveNickname CONFIG (StorageRaises (js ''QuotaExceededError'')) 3000
              (inspecting (js '' Forklift-3 ''))) = Map.empty"
proof -
  have d: "js ''dev-1'' \<noteq> []"
    by (simp add: js_def)
  have t1: "trim (js '' Forklift-3 '') = js ''Forklift-3''"
    by (simp add: trim_def js_def isWhiteSpace_def)
  have f: "js ''Forklift-3'' \<noteq> []"
    by (simp add: js_def)
  have n: "trim (inspector_name (inspecting (js '' Forklift-3 ''))) \<noteq> []"
    by (simp add: inspecting_facts t1 f)
  show ?thesis
    using saveNickname_storage_failure [OF inspecting_facts(1) d inspecting_facts(2) n,
        of CONFIG "StorageRaises (js ''QuotaExceededError'')" 3000 "js ''QuotaExceededError''"]
    by (simp add: inspecting_facts t1 d f)
qed

section \<open>Starting and stopping the scan\<close>

text \<open>
  A granted \<open>startScan\<close> issues one request and leaves the scan active; and what
  \<open>toggleScan\<close> does when the scan is active, for either answer of \<open>scan.stop()\<close>.
\<close>

lemma startScan_granted:
  assumes "btnStartScan s = Some b" and "bluetooth s"
    and "fst (buildFilters (FTS_PROFILES cfg)) \<noteq> []"
  shows "\<exists>s1. startScan cfg Granted s = Inr s1 \<and>
           scan s1 = Some \<lparr> active = True \<rparr> \<and>
           btnStartScan s1 = Some (b\<lparr>textContent := ScanLaeuft, scanning := True\<rparr>) \<and>
           length (scanRequests s1) = Suc (length (scanRequests s))"
  using assms
  by (cases "buildFilters (FTS_PROFILES cfg)")
    (simp add: startScan_def Let_def log_def error_def setInterval_def clearInterval_def
      split: option.split)

lemma toggleScan_active:
  assumes "btnStartScan s = Some b" and "scan s = Some sc" and "active sc"
  shows "toggleScan cfg (StopRaises m) outcome s = Inr (error (StopFailed m) s)"
    and "toggleScan cfg Stopped outcome s =
           Inr ((case tickerInterval s of
                   None \<Rightarrow> s
                 | Some i \<Rightarrow> if i = 0 then s else clearInterval i s)
                \<lparr>scan := Some (sc\<lparr>active := False\<rparr>),
                 console := console s @ [(LOG, ScanStopped)],
                 btnStartScan := Some (b\<lparr>textContent := ScanStarten, scanning := False\<rparr>),
                 tickerInterval := None\<rparr>)"
  using assms
  by (simp_all add: toggleScan_def Let_def log_def clearInterval_def split: option.split)

lemma scanningState_eq:
  "toggleScan CONFIG Stopped Granted initialState = Inr scanningState"
  by (simp add: scanningState_def toggleScan_def startScan_def initialState_def CONFIG_def
      Let_def log_def setInterval_def)

lemma scanningState_fields:
  "btnStartScan scanningState = Some \<lparr> textContent = ScanLaeuft, scanning = True \<rparr>"
  "scan scanningState = Some \<lparr> active = True \<rparr>"
  "tickerInterval scanningState = Some 1"
  "intervals scanningState = {1}"
  "length (scanRequests scanningState) = 1"
  "bluetooth scanningState"
  by (simp_all add: scanningState_def toggleScan_def startScan_def initialState_def CONFIG_def
      Let_def log_def setInterval_def)

lemma initialState_fields:
  "btnStartScan initialState = Some \<lparr> textContent = ScanStarten, scanning = False \<rparr>"
  "scan initialState = None"
  "bluetooth initialState"
  "scanRequests initialState = []"
  by (simp_all add: initialState_def)

lemma CONFIG_filters:
  "fst (buildFilters (FTS_PROFILES CONFIG)) =
     [ServicesFilter (js ''0xfcf1''), ManufacturerDataFilter 0xa212]"
  by (simp add: CONFIG_def)

text \<open>
  C5, as the code has it: the start button is a toggle. When the scan is active,
  \<open>toggleScan\<close> issues no request to the scan source, but it is not a no-op: it calls
  \<open>scan.stop()\<close>, and when that returns the scan is inactive, the button is back to
  "Scan starten" and the ticker is cleared. So two presses in a row, the first one
  granted from the idle state, leave the scan source with exactly one more request.
\<close>

theorem toggleScan_twice:
  "(btnStartScan s = Some b \<and> scan s = Some sc \<and> active sc \<longrightarrow>
      (\<exists>s'. toggleScan cfg stopped outcome s = Inr s' \<and>
            scanRequests s' = scanRequests s \<and>
            (stopped = Stopped \<longrightarrow>
               scan s' = Some (sc\<lparr>active := False\<rparr>) \<and>
               btnStartScan s' = Some (b\<lparr>textContent := ScanStarten, scanning := False\<rparr>) \<and>
               tickerInterval s' = None))) \<and>
   (btnStartScan s = Some b \<and> (\<forall>sc. scan s = Some sc \<longrightarrow> \<not> active sc) \<and> bluetooth s \<and>
    fst (buildFilters (FTS_PROFILES cfg)) \<noteq> [] \<longrightarrow>
      (\<exists>s1 s2. toggleScan cfg stopped1 Granted s = Inr s1 \<and>
            toggleScan cfg stopped outcome s1 = Inr s2 \<and>
            length (scanRequests s2) = Suc (length (scanRequests s))))"
proof (intro conjI impI)
  assume a: "btnStartScan s = Some b \<and> scan s = Some sc \<and> active sc"
  then have a': "btnStartScan s = Some b" "scan s = Some sc" "active sc"
    by simp_all
  show "\<exists>s'. toggleScan cfg stopped outcome s = Inr s' \<and>
            scanRequests s' = scanRequests s \<and>
            (stopped = Stopped \<longrightarrow>
               scan s' = Some (sc\<lparr>active := False\<rparr>) \<and>
               btnStartScan s' = Some (b\<lparr>textContent := ScanStarten, scanning := False\<rparr>) \<and>
               tickerInterval s' = None)"
    by (cases stopped)
      (simp_all add: toggleScan_active [OF a'] error_def clearInterval_def split: option.split)
next
  assume i: "btnStartScan s = Some b \<and> (\<forall>sc. scan s = Some sc \<longrightarrow> \<not> active sc) \<and> bluetooth s \<and>
    fst (buildFilters (FTS_PROFILES cfg)) \<noteq> []"
  then have "toggleScan cfg stopped1 Granted s = startScan cfg Granted s"
    by (auto simp: toggleScan_def split: option.split)
  with i startScan_granted [of s b cfg] obtain s1 where
    s1: "toggleScan cfg stopped1 Granted s = Inr s1" "scan s1 = Some \<lparr> active = True \<rparr>"
      "btnStartScan s1 = Some (b\<lparr>textContent := ScanLaeuft, scanning := True\<rparr>)"
      "length (scanRequests s1) = Suc (length (scanRequests s))"
    by auto
  have act: "active \<lparr> active = True \<rparr>"
    by simp
  have "\<exists>s2. toggleScan cfg stopped outcome s1 = Inr s2 \<and> scanRequests s2 = scanRequests s1"
    by (cases stopped)
      (simp_all add: toggleScan_active [OF s1(3) s1(2) act] error_def clearInterval_def
        split: option.split)
  with s1 show "\<exists>s1 s2. toggleScan cfg stopped1 Granted s = Inr s1 \<and>
            toggleScan cfg stopped outcome s1 = Inr s2 \<and>
            length (scanRequests s2) = Suc (length (scanRequests s))"
    by auto
qed

theorem toggleScan_twice_witness:
  "btnStartScan scanningState = Some \<lparr> textContent = ScanLaeuft, scanning = True \<rparr> \<and>
   scan scanningState = Some \<lparr> active = True \<rparr> \<and> active \<lparr> active = True \<rparr> \<and>
   (\<exists>s'. toggleScan CONFIG Stopped Granted scanningState = Inr s' \<and>
         scanRequests s' = scanRequests scanningState \<and>
         scan s' = Some \<lparr> active = False \<rparr> \<and>
         btnStartScan s' = Some \<lparr> textContent = ScanStarten, scanning = False \<rparr> \<and>
         tickerInterval s' = None) \<and>
   btnStartScan initialState = Some \<lparr> textContent = ScanStarten, scanning = False \<rparr> \<and>
   scan initialState = None \<and> bluetooth initialState \<and>
   fst (buildFilters (FTS_PROFILES CONFIG)) \<noteq> [] \<and>
   (\<exists>s1 s2. toggleScan CONFIG Stopped Granted initialState = Inr s1 \<and>
         toggleScan CONFIG Stopped Granted s1 = Inr s2 \<and>
         length (scanRequests s2) = 1)"
  using toggleScan_twice [of scanningState "\<lparr> textContent = ScanLaeuft, scanning = True \<rparr>"
      "\<lparr> active = True \<rparr>" CONFIG Stopped Granted Stopped]
    toggleScan_twice [of initialState "\<lparr> textContent = ScanStarten, scanning = False \<rparr>"
      "\<lparr> active = True \<rparr>" CONFIG Stopped Granted Stopped]
  by (simp add: scanningState_fields initialState_fields CONFIG_filters)

text \<open>
  Against C5 as stated: in the state after one granted start, a second press of the
  button leaves the scan inactive, and a second call of \<open>startScan\<close>, which has no
  guard of its own, sends a second request.
\<close>

theorem start_while_active_counterexample:
  "scan scanningState = Some \<lparr> active = True \<rparr> \<and>
   map_sum id scan (toggleScan CONFIG Stopped Granted scanningState) =
     Inr (Some \<lparr> active = False \<rparr>) \<and>
   map_sum id (length \<circ> scanRequests) (startScan CONFIG Granted scanningState) = Inr 2"
proof -
  have "map_sum id (length \<circ> scanRequests) (startScan CONFIG Granted scanningState) = Inr 2"
    using startScan_granted [OF scanningState_fields(1) scanningState_fields(6), of CONFIG]
    by (auto simp: CONFIG_filters scanningState_fields)
  moreover have "map_sum id scan (toggleScan CONFIG Stopped Granted scanningState) =
     Inr (Some \<lparr> active = False \<rparr>)"
    by (simp add: toggleScan_active [OF scanningState_fields(1,2)] scanningState_fields
        clearInterval_def)
  ultimately show ?thesis
    by (simp add: scanningState_fields)
qed

text \<open>
  C6, as the code has it: when the scan is active and \<open>scan.stop()\<close> returns,
  \<open>toggleScan\<close> leaves the scan inactive, the button idle and the ticker cleared, with
  its timer no longer running; when \<open>scan.stop()\<close> raises, the error is reported and
  nothing else changes.
\<close>

theorem toggleScan_stop:
  assumes "btnStartScan s = Some b" and "scan s = Some sc" and "active sc"
  shows "(\<exists>s'. toggleScan cfg Stopped outcome s = Inr s' \<and>
            scan s' = Some (sc\<lparr>active := False\<rparr>) \<and>
            btnStartScan s' = Some (b\<lparr>textContent := ScanStarten, scanning := False\<rparr>) \<and>
            tickerInterval s' = None \<and>
            (\<forall>i. tickerInterval s = Some i \<longrightarrow> i \<noteq> 0 \<longrightarrow> i \<notin> intervals s') \<and>
            (intervals s \<subseteq> {i. i \<noteq> 0 \<and> tickerInterval s = Some i} \<longrightarrow> intervals s' = {})) \<and>
         toggleScan cfg (StopRaises m) outcome s = Inr (error (StopFailed m) s)"
  by (auto simp: toggleScan_active [OF assms] clearInterval_def split: option.split)

theorem toggleScan_stop_witness:
  "btnStartScan scanningState = Some \<lparr> textContent = ScanLaeuft, scanning = True \<rparr> \<and>
   scan scanningState = Some \<lparr> active = True \<rparr> \<and> active \<lparr> active = True \<rparr> \<and>
   tickerInterval scanningState = Some 1 \<and> intervals scanningState = {1} \<and>
   (\<exists>s'. toggleScan CONFIG Stopped Granted scanningState = Inr s' \<and>
         scan s' = Some \<lparr> active = False \<rparr> \<and>
         btnStartScan s' = Some \<lparr> textContent = ScanStarten, scanning = False \<rparr> \<and>
         tickerInterval s' = None \<and> intervals s' = {}) \<and>
   toggleScan CONFIG (StopRaises (js ''NetworkError'')) Granted scanningState =
     Inr (error (StopFailed (js ''NetworkError'')) scanningState)"
proof -
  have act: "active \<lparr> active = True \<rparr>"
    by simp
  show ?thesis
    using toggleScan_stop [OF scanningState_fields(1,2) act, of CONFIG Granted "js ''NetworkError''"]
    by (auto simp: scanningState_fields)
qed

text \<open>
  Against C6 as stated: when \<open>scan.stop()\<close> raises, the button still shows the scan
  as running and the ticker still runs.
\<close>

theorem stop_raises_counterexample:
  "scan scanningState = Some \<lparr> active = True \<rparr> \<and>
   map_sum id btnStartScan
     (toggleScan CONFIG (StopRaises (js ''NetworkError'')) Granted scanningState) =
     Inr (Some \<lparr> textContent = ScanLaeuft, scanning = True \<rparr>) \<and>
   map_sum id tickerInterval
     (toggleScan CONFIG (StopRaises (js ''NetworkError'')) Granted scanningState) =
     Inr (Some 1) \<and>
   map_sum id intervals
     (toggleScan CONFIG (StopRaises (js ''NetworkError'')) Granted scanningState) =
     Inr {1}"
  by (simp add: toggleScan_active [OF scanningState_fields(1,2)] scanningState_fields error_def)

section \<open>The history of signal strengths\<close>

lemma newest_rev: "newest n xs = rev (take n (rev xs))"
  by (simp add: newest_def rev_take)

lemma newest_append: "newest n (newest n xs @ ys) = newest n (xs @ ys)"
  by (simp add: newest_rev min_def)

lemma newest_all: "length xs \<le> n \<Longrightarrow> newest n xs = xs"
  by (simp add: newest_def)

lemma length_newest: "length (newest n xs) = min n (length xs)"
  by (simp add: newest_def)

lemma push_newest:
  assumes "length h \<le> 20"
  shows "(let h' = h @ [r] in if length h' > 20 then tl h' else h') = newest 20 (h @ [r])"
proof (cases "length h = 20")
  case True
  then have "newest 20 (h @ [r]) = drop 1 (h @ [r])"
    by (simp add: newest_def)
  moreover from True have "h \<noteq> []"
    by auto
  ultimately show ?thesis
    using True by (simp add: drop_Suc)
next
  case False
  with assms show ?thesis
    by (simp add: newest_def)
qed

lemma matched_cases:
  "matched cfg ev \<longleftrightarrow> (\<exists>p prof. fst (extractRelevantPayload cfg ev) = Some (p, prof) \<and> p \<noteq> [])"
  by (auto simp: matched_def split: option.splits)

lemma handleAdvertisement_other:
  "device_id ev \<noteq> d \<Longrightarrow>
     detectedAssets (handleAdvertisement cfg ev now t1 t2 s) d = detectedAssets s d"
  by (cases "extractRelevantPayload cfg ev")
    (auto simp: handleAdvertisement_def createFtsTile_def Let_def log_def
      split: option.splits)

lemma handleAdvertisement_unmatched:
  "\<not> matched cfg ev \<Longrightarrow>
     detectedAssets (handleAdvertisement cfg ev now t1 t2 s) = detectedAssets s"
  by (cases "extractRelevantPayload cfg ev")
    (auto simp: handleAdvertisement_def matched_def Let_def split: option.splits)

lemma handleAdvertisement_new:
  assumes "fst (extractRelevantPayload cfg ev) = Some (p, prof)" and "p \<noteq> []"
    and "detectedAssets s (device_id ev) = None"
  shows "\<exists>a'. detectedAssets (handleAdvertisement cfg ev now t1 t2 s) (device_id ev) = Some a' \<and>
           rssiHistory a' = [event_rssi ev] \<and> profileName a' = cfg_profileName prof \<and>
           asset_id a' = device_id ev"
  using assms
  by (cases "extractRelevantPayload cfg ev")
    (auto simp: handleAdvertisement_def createFtsTile_def Let_def log_def
      split: option.splits)

lemma handleAdvertisement_existing:
  assumes "matched cfg ev" and "detectedAssets s (device_id ev) = Some a"
  shows "\<exists>a'. detectedAssets (handleAdvertisement cfg ev now t1 t2 s) (device_id ev) = Some a' \<and>
           rssiHistory a' =
             (let h = rssiHistory a @ [event_rssi ev] in if length h > 20 then tl h else h) \<and>
           profileName a' = profileName a \<and> asset_id a' = asset_id a"
  using assms
  by (cases "extractRelevantPayload cfg ev")
    (auto simp: handleAdvertisement_def matched_def Let_def split: option.splits)

lemma saveNickname_entry:
  "detectedAssets (saveNickname cfg outcome t s) d = None \<longleftrightarrow> detectedAssets s d = None"
  "detectedAssets s d = Some a \<Longrightarrow>
     \<exists>a'. detectedAssets (saveNickname cfg outcome t s) d = Some a' \<and>
          rssiHistory a' = rssiHistory a \<and> profileName a' = profileName a"
  by (cases outcome;
      auto simp: saveNickname_def Let_def warn_def log_def error_def hideInspectorModal_def
        split: option.splits)+

lemma updateAllAssetStatus_entry:
  "detectedAssets (updateAllAssetStatus cfg now s) d =
     map_option (\<lambda>a. updateSingleAssetStatus cfg a now) (detectedAssets s d)"
  by (simp add: updateAllAssetStatus_def)

lemma showInspectorModal_registry [simp]:
  "detectedAssets (showInspectorModal deviceId s) = detectedAssets s"
  by (simp add: showInspectorModal_def warn_def log_def split: option.split)

lemma hideInspectorModal_registry [simp]:
  "detectedAssets (hideInspectorModal s) = detectedAssets s"
  by (simp add: hideInspectorModal_def log_def)

text \<open>A step that is not an observation of \<open>d\<close> leaves the history of \<open>d\<close> as it is.\<close>

lemma step_no_observation:
  assumes "observations cfg d [act] = []"
  shows "map_option rssiHistory (detectedAssets (step cfg s act) d) =
           map_option rssiHistory (detectedAssets s d)"
proof (cases act)
  case (Advertisement ev now t1 t2)
  with assms have "device_id ev \<noteq> d \<or> \<not> matched cfg ev"
    by (auto split: if_splits)
  with Advertisement show ?thesis
    by (auto simp: handleAdvertisement_other handleAdvertisement_unmatched)
next
  case (Tick now)
  then show ?thesis
    by (cases "detectedAssets s d") (simp_all add: updateAllAssetStatus_entry)
next
  case (SaveName outcome t)
  show ?thesis
  proof (cases "detectedAssets s d")
    case None
    with SaveName show ?thesis
      by (simp add: saveNickname_entry(1))
  next
    case (Some a)
    with SaveName saveNickname_entry(2) [OF Some, of cfg outcome t] show ?thesis
      by auto
  qed
qed simp_all

text \<open>An observation of \<open>d\<close> starts its history, or appends to it and keeps the newest 20.\<close>

lemma step_observation:
  assumes "device_id ev = d" and "matched cfg ev"
  shows "map_option rssiHistory (detectedAssets (step cfg s (Advertisement ev now t1 t2)) d) =
           Some (case detectedAssets s d of
                   None \<Rightarrow> [event_rssi ev]
                 | Some a \<Rightarrow>
                     (let h = rssiHistory a @ [event_rssi ev]
                      in if length h > 20 then tl h else h))"
proof (cases "detectedAssets s d")
  case None
  from assms(2) obtain p prof where
    "fst (extractRelevantPayload cfg ev) = Some (p, prof)" "p \<noteq> []"
    by (auto simp: matched_cases)
  from handleAdvertisement_new [OF this, of s now t1 t2] None assms(1) show ?thesis
    by auto
next
  case (Some a)
  with handleAdvertisement_existing [OF assms(2), of s a now t1 t2] assms(1) show ?thesis
    by auto
qed

lemma run_Cons: "run cfg s (act # acts) = run cfg (step cfg s act) acts"
  by (simp add: run_def)

lemma observations_Cons:
  "observations cfg d (act # acts) = observations cfg d [act] @ observations cfg d acts"
  by (cases act) simp_all

lemma run_history_known:
  assumes "detectedAssets s d = Some a" and "length (rssiHistory a) \<le> 20"
  shows "map_option rssiHistory (detectedAssets (run cfg s acts) d) =
           Some (newest 20 (rssiHistory a @ observations cfg d acts))"
  using assms
proof (induction acts arbitrary: s a)
  case Nil
  then show ?case
    by (simp add: run_def newest_all)
next
  case (Cons act acts)
  show ?case
  proof (cases "observations cfg d [act] = []")
    case True
    from step_no_observation [OF True, of s] Cons.prems obtain a' where
      a': "detectedAssets (step cfg s act) d = Some a'" "rssiHistory a' = rssiHistory a"
      by auto
    with Cons.prems have "length (rssiHistory a') \<le> 20"
      by simp
    from Cons.IH [OF a'(1) this] a'(2) True show ?thesis
      by (simp add: run_Cons observations_Cons [of cfg d act acts])
  next
    case False
    then obtain ev now t1 t2 where
      act: "act = Advertisement ev now t1 t2" "device_id ev = d" "matched cfg ev"
      by (cases act) (auto split: if_splits)
    from step_observation [OF act(2,3), of s now t1 t2] Cons.prems obtain a' where
      a': "detectedAssets (step cfg s act) d = Some a'"
        "rssiHistory a' = newest 20 (rssiHistory a @ [event_rssi ev])"
      by (auto simp: act(1) push_newest)
    have "length (rssiHistory a') \<le> 20"
      by (simp add: a'(2) length_newest)
    from Cons.IH [OF a'(1) this] show ?thesis
      by (simp add: run_Cons act a'(2) newest_append)
  qed
qed

text \<open>
  C2: take any run of the application from a state that does not know the device
  \<open>d\<close>. After it, \<open>d\<close> is in the registry iff the run holds an advertisement of \<open>d\<close> that
  was not discarded, and then its \<open>rssiHistory\<close> is the newest 20 of the signal
  strengths observed for \<open>d\<close>, in order of arrival with the newest last; its length is
  the minimum of 20 and the number of observations, and never more than 20. Every
  prefix of a run is a run, so this holds after each observation.
\<close>

theorem rssiHistory_newest_20:
  assumes "detectedAssets s d = None"
  shows "case detectedAssets (run cfg s acts) d of
           None \<Rightarrow> observations cfg d acts = []
         | Some a \<Rightarrow>
             observations cfg d acts \<noteq> [] \<and>
             rssiHistory a = newest 20 (observations cfg d acts) \<and>
             length (rssiHistory a) = min 20 (length (observations cfg d acts)) \<and>
             length (rssiHistory a) \<le> 20 \<and>
             last (rssiHistory a) = last (observations cfg d acts)"
proof -
  have "map_option rssiHistory (detectedAssets (run cfg s acts) d) =
          (if observations cfg d acts = [] then None
           else Some (newest 20 (observations cfg d acts)))"
    using assms
  proof (induction acts arbitrary: s)
    case Nil
    then show ?case
      by (simp add: run_def)
  next
    case (Cons act acts)
    show ?case
    proof (cases "observations cfg d [act] = []")
      case True
      from step_no_observation [OF True, of s] Cons.prems
      have "detectedAssets (step cfg s act) d = None"
        by simp
      from Cons.IH [OF this] True show ?thesis
        by (simp add: run_Cons observations_Cons [of cfg d act acts])
    next
      case False
      then obtain ev now t1 t2 where
        act: "act = Advertisement ev now t1 t2" "device_id ev = d" "matched cfg ev"
        by (cases act) (auto split: if_splits)
      from step_observation [OF act(2,3), of s now t1 t2] Cons.prems obtain a' where
        a': "detectedAssets (step cfg s act) d = Some a'" "rssiHistory a' = [event_rssi ev]"
        by (auto simp: act(1))
      have "length (rssiHistory a') \<le> 20"
        by (simp add: a'(2))
      from run_history_known [OF a'(1) this, of cfg acts] show ?thesis
        by (simp add: run_Cons act a'(2))
    qed
  qed
  moreover have "last (newest 20 xs) = last xs" if "xs \<noteq> []" for xs :: "int list"
    using that by (simp add: newest_def)
  ultimately show ?thesis
    by (auto simp: length_newest split: option.splits if_splits)
qed

lemma matched_beacon: "matched CONFIG (beacon r)"
  by (simp add: matched_def extractRelevantPayload_def CONFIG_def beacon_def matchProfile_def
      toString16.simps trim_def js_def isWhiteSpace_def toUpperCase_def)

lemma observations_beacons: "observations CONFIG (js ''dev-1'') (beacons rs) = rs"
  by (induction rs) (simp_all add: beacons_def matched_beacon, simp_all add: beacon_def)

theorem rssiHistory_newest_20_witness:
  "detectedAssets initialState (js ''dev-1'') = None \<and>
   (case detectedAssets (run CONFIG initialState (beacons [- 90, - 89, - 88, - 87, - 86, - 85, - 84,
        - 83, - 82, - 81, - 80, - 79, - 78, - 77, - 76, - 75, - 74, - 73, - 72, - 71, - 70, - 69]))
        (js ''dev-1'') of
      None \<Rightarrow> False
    | Some a \<Rightarrow>
        rssiHistory a = [- 88, - 87, - 86, - 85, - 84, - 83, - 82, - 81, - 80, - 79, - 78, - 77,
          - 76, - 75, - 74, - 73, - 72, - 71, - 70, - 69] \<and>
        length (rssiHistory a) = 20)"
proof -
  have h: "detectedAssets initialState (js ''dev-1'') = None"
    by (simp add: initialState_def)
  show ?thesis
    using h rssiHistory_newest_20 [OF h, of CONFIG "beacons [- 90, - 89, - 88, - 87, - 86, - 85,
        - 84, - 83, - 82, - 81, - 80, - 79, - 78, - 77, - 76, - 75, - 74, - 73, - 72, - 71, - 70, - 69]"]
    by (simp add: observations_beacons newest_def split: option.splits)
qed

section \<open>The profile name of an asset\<close>

text \<open>
  C3: the advertisement that creates an asset gives it the name of the profile that
  the matcher returned for it, and no run of the application changes the
  \<open>profileName\<close> of an asset that is in the registry: not a later advertisement of
  the same device, whatever profile it matches, not a tick, not a change of name.
\<close>

theorem profileName_fixed_at_creation:
  "(detectedAssets s (device_id ev) = None \<and>
    fst (extractRelevantPayload cfg ev) = Some (p, prof) \<and> p \<noteq> [] \<longrightarrow>
      map_option profileName
        (detectedAssets (handleAdvertisement cfg ev now t1 t2 s) (device_id ev)) =
      Some (cfg_profileName prof)) \<and>
   (detectedAssets s d = Some a \<longrightarrow>
      map_option profileName (detectedAssets (run cfg s acts) d) = Some (profileName a))"
proof (intro conjI impI)
  assume "detectedAssets s (device_id ev) = None \<and>
    fst (extractRelevantPayload cfg ev) = Some (p, prof) \<and> p \<noteq> []"
  then show "map_option profileName
        (detectedAssets (handleAdvertisement cfg ev now t1 t2 s) (device_id ev)) =
      Some (cfg_profileName prof)"
    using handleAdvertisement_new [of cfg ev p prof s now t1 t2] by auto
next
  assume "detectedAssets s d = Some a"
  then show "map_option profileName (detectedAssets (run cfg s acts) d) = Some (profileName a)"
  proof (induction acts arbitrary: s a)
    case Nil
    then show ?case
      by (simp add: run_def)
  next
    case (Cons act acts)
    have "\<exists>a'. detectedAssets (step cfg s act) d = Some a' \<and> profileName a' = profileName a"
    proof (cases act)
      case (Advertisement ev now t1 t2)
      show ?thesis
      proof (cases "device_id ev = d \<and> matched cfg ev")
        case True
        with handleAdvertisement_existing [of cfg ev s a now t1 t2] Cons.prems Advertisement
        show ?thesis
          by auto
      next
        case False
        with Cons.prems Advertisement show ?thesis
          by (auto simp: handleAdvertisement_other handleAdvertisement_unmatched)
      qed
    next
      case (Tick now)
      with Cons.prems show ?thesis
        by (simp add: updateAllAssetStatus_entry)
    next
      case (SaveName outcome t)
      with saveNickname_entry(2) [OF Cons.prems, of cfg outcome t] show ?thesis
        by auto
    qed (use Cons.prems in simp_all)
    then obtain a' where "detectedAssets (step cfg s act) d = Some a'"
      "profileName a' = profileName a"
      by blast
    with Cons.IH [of "step cfg s act" a'] show ?case
      by (simp add: run_Cons)
  qed
qed

theorem profileName_fixed_at_creation_witness:
  "detectedAssets initialState (device_id (beacon (- 70))) = None \<and>
   fst (extractRelevantPayload CONFIG (beacon (- 70))) =
     Some (js ''0x04 37'', hd (FTS_PROFILES CONFIG)) \<and>
   js ''0x04 37'' \<noteq> [] \<and>
   map_option profileName
     (detectedAssets (handleAdvertisement CONFIG (beacon (- 70)) 1000 1001 1002 initialState)
        (js ''dev-1'')) = Some (js ''FTS-Gruppe Ladestation (Typ A)'') \<and>
   detectedAssets exampleState (js ''dev-1'') = Some exampleAsset \<and>
   device_id (beaconB (- 60)) = js ''dev-1'' \<and>
   map_option snd (fst (extractRelevantPayload CONFIG (beaconB (- 60)))) =
     Some (FTS_PROFILES CONFIG ! 1) \<and>
   map_option profileName
     (detectedAssets
        (run CONFIG exampleState
           [Advertisement (beaconB (- 60)) 50000 50001 50002, Tick 60000,
            OpenTile (js ''dev-1''), EditName (js ''Forklift-3''), SaveName Stored 70000])
        (js ''dev-1'')) = Some (js ''FTS-Gruppe Ladestation (Typ A)'')"
proof -
  have h1: "detectedAssets initialState (js ''dev-1'') = None"
    by (simp add: initialState_def)
  have h2: "fst (extractRelevantPayload CONFIG (beacon (- 70))) =
     Some (js ''0x04 37'', hd (FTS_PROFILES CONFIG))"
    by (simp add: extractRelevantPayload_def CONFIG_def beacon_def matchProfile_def
        toString16.simps trim_def js_def isWhiteSpace_def toUpperCase_def)
  have h3: "js ''0x04 37'' \<noteq> []"
    by (simp add: js_def)
  have h4: "detectedAssets exampleState (js ''dev-1'') = Some exampleAsset"
    by (simp add: exampleState_def exampleAsset_def)
  have b: "map_option snd (fst (extractRelevantPayload CONFIG (beaconB (- 60)))) =
     Some (FTS_PROFILES CONFIG ! 1)"
    by (simp add: extractRelevantPayload_def CONFIG_def beaconB_def matchProfile_def
        toString16.simps trim_def js_def isWhiteSpace_def toUpperCase_def)
  have n: "cfg_profileName (hd (FTS_PROFILES CONFIG)) = js ''FTS-Gruppe Ladestation (Typ A)''"
    "profileName exampleAsset = js ''FTS-Gruppe Ladestation (Typ A)''"
    "device_id (beacon (- 70)) = js ''dev-1''" "device_id (beaconB (- 60)) = js ''dev-1''"
    by (simp_all add: CONFIG_def exampleAsset_def beacon_def beaconB_def)
  show ?thesis
    using profileName_fixed_at_creation [of initialState "beacon (- 70)" CONFIG "js ''0x04 37''"
        "hd (FTS_PROFILES CONFIG)" 1000 1001 1002 "js ''dev-1''" exampleAsset]
      profileName_fixed_at_creation [of exampleState "beacon (- 70)" CONFIG "js ''0x04 37''"
        "hd (FTS_PROFILES CONFIG)" 1000 1001 1002 "js ''dev-1''" exampleAsset
        "[Advertisement (beaconB (- 60)) 50000 50001 50002, Tick 60000,
            OpenTile (js ''dev-1''), EditName (js ''Forklift-3''), SaveName Stored 70000]"]
    by (simp add: h1 h2 h3 h4 b n)
qed

section \<open>Every asset has a tile\<close>

text \<open>
  \<open>updateSingleAssetStatus\<close> returns at once for an asset without \<open>dom\<close>. No asset
  of the registry is without it: \<open>createFtsTile\<close> sets it in the handler that creates
  the asset, and nothing removes it.
\<close>

lemma updateSingleAssetStatus_dom_Some [simp]:
  "(\<exists>y. asset_dom (updateSingleAssetStatus cfg a now) = Some y) \<longleftrightarrow> (\<exists>y. asset_dom a = Some y)"
  by (metis not_None_eq updateSingleAssetStatus_dom)

lemma updateFtsTile_dom_Some [simp]:
  "(\<exists>y. asset_dom (updateFtsTile cfg a t) = Some y) \<longleftrightarrow> (\<exists>y. asset_dom a = Some y)"
  by (metis not_None_eq updateFtsTile_dom)

lemma tiled_step: "tiled s \<Longrightarrow> tiled (step cfg s act)"
proof (cases act)
  case (Advertisement ev now t1 t2)
  assume "tiled s"
  then show ?thesis
    unfolding Advertisement tiled_def
    by (cases "extractRelevantPayload cfg ev")
      (auto simp: handleAdvertisement_def createFtsTile_def Let_def log_def
        split: option.splits if_splits )
next
  case (Tick now)
  assume "tiled s"
  then show ?thesis
    unfolding Tick tiled_def
    by (auto simp: updateAllAssetStatus_def )
next
  case (SaveName outcome t)
  assume "tiled s"
  then show ?thesis
    unfolding SaveName tiled_def
    by (cases outcome)
      (auto simp: saveNickname_def Let_def warn_def log_def error_def hideInspectorModal_def
        split: option.splits if_splits )
qed (simp_all add: tiled_def)

lemma tiled_run: "tiled s \<Longrightarrow> tiled (run cfg s acts)"
  by (induction acts arbitrary: s) (simp_all add: run_def tiled_step)

lemma tiled_initialState: "tiled initialState"
  by (simp add: tiled_def initialState_def)

end
